theory Spec2Isabelle
  imports Complex_Main
begin

section \<open>JavaScript values\<close>

text \<open>
  The worker is untyped at run time: tool arguments, downstream JSON and tool results are
  plain JavaScript values. A value is \<open>undefined\<close>, \<open>null\<close>, a boolean, a number, a string,
  an array or an object; an object literal is the list of its properties in source order,
  with distinct keys. Every \<open>char\<close> of a string stands for one UTF-16 code unit, which is
  what \<open>String.length\<close> counts. Numbers that arrive as JSON are finite, so a number is a
  rational here (there is no NaN and no infinity in JSON).
\<close>

datatype jsval =
    JUndefined
  | JNull
  | JBool bool
  | JNum rat
  | JStr string
  | JArr "jsval list"
  | JObj "(string \<times> jsval) list"

text \<open>Property read \<open>v.k\<close>, for the property names this program uses (none of them is
  inherited from a prototype): \<open>undefined\<close> unless \<open>v\<close> is an object that has \<open>k\<close>.\<close>

fun get_prop :: "jsval \<Rightarrow> string \<Rightarrow> jsval" where
  "get_prop (JObj ps) k = (case map_of ps k of Some v \<Rightarrow> v | None \<Rightarrow> JUndefined)"
| "get_prop v k = JUndefined"

text \<open>Destructuring \<open>({a, b}) => ...\<close> and \<open>const {a} = v\<close> throw a TypeError on
  \<open>undefined\<close> and \<open>null\<close>, and read properties otherwise.\<close>

definition destructurable :: "jsval \<Rightarrow> bool" where
  "destructurable v = (v \<noteq> JUndefined \<and> v \<noteq> JNull)"

fun join :: "string \<Rightarrow> string list \<Rightarrow> string" where
  "join sep [] = []"
| "join sep [x] = x"
| "join sep (x # y # ys) = x @ sep @ join sep (y # ys)"

subsection \<open>ToString, as template literals and request bodies apply it\<close>

fun to_string :: "(rat \<Rightarrow> string) \<Rightarrow> jsval \<Rightarrow> string" where
  "to_string nf JUndefined = ''undefined''"
| "to_string nf JNull = ''null''"
| "to_string nf (JBool b) = (if b then ''true'' else ''false'')"
| "to_string nf (JNum x) = nf x"
| "to_string nf (JStr s) = s"
| "to_string nf (JArr xs) =
     join '','' (map (\<lambda>x. if x = JUndefined \<or> x = JNull then [] else to_string nf x) xs)"
| "to_string nf (JObj ps) = ''[object Object]''"

subsection \<open>JSON.stringify\<close>

definition hex_digit :: "nat \<Rightarrow> char" where
  "hex_digit n = ''0123456789abcdef'' ! (n mod 16)"

definition quote_unit :: "char \<Rightarrow> string" where
  "quote_unit c =
     (if c = CHR 0x22 then [CHR 0x5C, CHR 0x22]
      else if c = CHR 0x5C then [CHR 0x5C, CHR 0x5C]
      else if c = CHR 0x08 then [CHR 0x5C, CHR ''b'']
      else if c = CHR 0x09 then [CHR 0x5C, CHR ''t'']
      else if c = CHR 0x0A then [CHR 0x5C, CHR ''n'']
      else if c = CHR 0x0C then [CHR 0x5C, CHR ''f'']
      else if c = CHR 0x0D then [CHR 0x5C, CHR ''r'']
      else if (of_char c :: nat) < 32
        then [CHR 0x5C, CHR ''u'', CHR ''0'', CHR ''0'',
              hex_digit (of_char c div 16), hex_digit (of_char c)]
      else [c])"

definition quote :: "string \<Rightarrow> string" where
  "quote s = [CHR 0x22] @ concat (map quote_unit s) @ [CHR 0x22]"

text \<open>\<open>JSON.stringify v\<close>: \<open>None\<close> is the result \<open>undefined\<close>. A property whose value
  is \<open>undefined\<close> is left out of an object, and an \<open>undefined\<close> array element is written
  \<open>null\<close>. The first argument is \<open>Number::toString\<close>, which the engine provides.\<close>

fun JSON_stringify :: "(rat \<Rightarrow> string) \<Rightarrow> jsval \<Rightarrow> string option" where
  "JSON_stringify nf JUndefined = None"
| "JSON_stringify nf JNull = Some ''null''"
| "JSON_stringify nf (JBool b) = Some (if b then ''true'' else ''false'')"
| "JSON_stringify nf (JNum x) = Some (nf x)"
| "JSON_stringify nf (JStr s) = Some (quote s)"
| "JSON_stringify nf (JArr xs) =
     Some (''['' @ join '',''
       (map (\<lambda>x. case JSON_stringify nf x of None \<Rightarrow> ''null'' | Some t \<Rightarrow> t) xs) @ '']'')"
| "JSON_stringify nf (JObj ps) =
     Some (''{'' @ join '',''
       (concat (map (\<lambda>p. case JSON_stringify nf (snd p) of
                            None \<Rightarrow> []
                          | Some t \<Rightarrow> [quote (fst p) @ '':'' @ t]) ps)) @ ''}'')"

section \<open>Argument schemas (zod)\<close>

datatype string_check = SMin nat | SMax nat | SLength nat

datatype number_check = NInt | NMin rat | NMax rat

datatype zod =
    ZString "string_check list"
  | ZNumber "number_check list"
  | ZDefault zod jsval
  | ZObject "(string \<times> zod) list"

fun string_check_ok :: "string \<Rightarrow> string_check \<Rightarrow> bool" where
  "string_check_ok s (SMin n) = (n \<le> length s)"
| "string_check_ok s (SMax n) = (length s \<le> n)"
| "string_check_ok s (SLength n) = (length s = n)"

fun number_check_ok :: "rat \<Rightarrow> number_check \<Rightarrow> bool" where
  "number_check_ok x NInt = (of_int \<lfloor>x\<rfloor> = x)"
| "number_check_ok x (NMin lo) = (lo \<le> x)"
| "number_check_ok x (NMax hi) = (x \<le> hi)"

text \<open>\<open>schema.parse v\<close>: \<open>None\<close> is a thrown ZodError. An object schema reads each declared
  key from the input (a missing key reads as \<open>undefined\<close>), and returns an object with the
  declared keys in declaration order; undeclared keys are dropped.\<close>

fun parse :: "zod \<Rightarrow> jsval \<Rightarrow> jsval option" where
  "parse (ZString cs) v =
     (case v of
        JStr s \<Rightarrow> if list_all (string_check_ok s) cs then Some (JStr s) else None
      | _ \<Rightarrow> None)"
| "parse (ZNumber cs) v =
     (case v of
        JNum x \<Rightarrow> if list_all (number_check_ok x) cs then Some (JNum x) else None
      | _ \<Rightarrow> None)"
| "parse (ZDefault t d) v = parse t (if v = JUndefined then d else v)"
| "parse (ZObject shape) v =
     (case v of
        JObj ps \<Rightarrow>
          map_option JObj
            (those (map (\<lambda>f. map_option (Pair (fst f)) (parse (snd f) (get_prop v (fst f)))) shape))
      | _ \<Rightarrow> None)"

section \<open>The platform\<close>

text \<open>
  An outbound call is the argument pair of the global \<open>fetch(url, init)\<close>; a downstream
  response is what the handlers read of it: the status and the body text. The platform
  record holds what the JavaScript engine and the network supply: \<open>Number::toString\<close>,
  \<open>JSON.parse\<close> (\<open>None\<close> is its SyntaxError) and the network itself, where \<open>Inl m\<close> is a
  rejected \<open>fetch\<close> (transport error \<open>m\<close>) and \<open>Inr r\<close> a response of any status.
\<close>

record outbound =
  out_url :: string
  out_method :: string
  out_headers :: "(string \<times> string) list"
  out_body :: "string option"

record downstream_response =
  res_status :: nat
  res_text :: string

record platform =
  number_to_string :: "rat \<Rightarrow> string"
  JSON_parse :: "string \<Rightarrow> jsval option"
  net_fetch :: "outbound \<Rightarrow> string + downstream_response"

text \<open>\<open>res.ok\<close>: the status is in the range 200 to 299.\<close>

definition ok :: "downstream_response \<Rightarrow> bool" where
  "ok res = (200 \<le> res_status res \<and> res_status res \<le> 299)"

text \<open>A \<open>body\<close> entry of the init object: \<open>undefined\<close> and \<open>null\<close> send no body, anything
  else is sent as its string.\<close>

definition body_init :: "(rat \<Rightarrow> string) \<Rightarrow> jsval \<Rightarrow> string option" where
  "body_init nf v = (if v = JUndefined \<or> v = JNull then None else Some (to_string nf v))"

text \<open>What a tool call can fail with: \<open>Thrown m\<close> is \<open>throw new Error(m)\<close> of a handler,
  \<open>FetchRejected m\<close> a rejected outbound \<open>fetch\<close>, \<open>SyntaxError\<close> and \<open>TypeError\<close> the
  exceptions of \<open>res.json()\<close> and of destructuring, \<open>ZodError\<close> a failed validation and
  \<open>UnknownTool\<close> a name that is not registered.\<close>

datatype failure =
    Thrown string
  | FetchRejected string
  | SyntaxError
  | TypeError
  | ZodError
  | UnknownTool

text \<open>The outcome of a tool call: the failure or the result, and the outbound calls that
  were made on the way, in order.\<close>

type_synonym tool_outcome = "(failure + jsval) \<times> outbound list"

type_synonym handler = "platform \<Rightarrow> jsval \<Rightarrow> tool_outcome"

record tool =
  tool_name :: string
  tool_schema :: zod
  tool_handler :: handler

record mcp_server =
  server_name :: string
  server_version :: string
  tools :: "tool list"

text \<open>The \<open>Env\<close> interface; \<open>SERVER\<close> is the cache handle \<open>__SERVER\<close>, \<open>None\<close> while absent.\<close>

record env =
  HUB_TOKEN :: string
  TTS_ENDPOINT :: string
  TTS_TOKEN :: string
  IMAGE_ENDPOINT :: string
  IMAGE_KEY :: string
  TRANSLATE_ENDPOINT :: string
  SERVER :: "mcp_server option"

section \<open>The three tools\<close>

subsection \<open>Tool 1: text-to-speech\<close>

definition generate_audio_schema :: zod where
  "generate_audio_schema =
     ZObject [(''text'', ZString [SMin 1, SMax 5000]),
              (''voiceId'', ZString []),
              (''modelId'', ZDefault (ZString []) (JStr ''eleven_turbo_v2''))]"

definition generate_audio_request :: "env \<Rightarrow> platform \<Rightarrow> jsval \<Rightarrow> outbound" where
  "generate_audio_request e pf args =
     \<lparr>out_url = TTS_ENDPOINT e @ ''?token='' @ TTS_TOKEN e,
      out_method = ''POST'',
      out_headers = [(''Content-Type'', ''application/json'')],
      out_body = JSON_stringify (number_to_string pf)
        (JObj [(''text'', get_prop args ''text''),
               (''voiceId'', get_prop args ''voiceId''),
               (''modelId'', get_prop args ''modelId'')])\<rparr>"

definition generate_audio :: "env \<Rightarrow> handler" where
  "generate_audio e pf args =
     (if \<not> destructurable args then (Inl TypeError, [])
      else let req = generate_audio_request e pf args in
        case net_fetch pf req of
          Inl m \<Rightarrow> (Inl (FetchRejected m), [req])
        | Inr res \<Rightarrow>
            if \<not> ok res then (Inl (Thrown (res_text res)), [req])
            else (case JSON_parse pf (res_text res) of
                    None \<Rightarrow> (Inl SyntaxError, [req])
                  | Some j \<Rightarrow>
                      if \<not> destructurable j then (Inl TypeError, [req])
                      else (Inr (JObj [(''content'', JArr
                              [JObj [(''type'', JStr ''text''),
                                     (''text'', JStr ''Audio created successfully.'')],
                               JObj [(''type'', JStr ''audio''),
                                     (''url'', get_prop j ''audioUrl''),
                                     (''mime_type'', JStr ''audio/mpeg'')]])]),
                            [req])))"

subsection \<open>Tool 2: image generation\<close>

definition generate_image_schema :: zod where
  "generate_image_schema =
     ZObject [(''prompt'', ZString [SMin 1, SMax 800]),
              (''steps'', ZDefault (ZNumber [NInt, NMin 1, NMax 100]) (JNum 30))]"

definition generate_image_request :: "env \<Rightarrow> platform \<Rightarrow> jsval \<Rightarrow> outbound" where
  "generate_image_request e pf args =
     \<lparr>out_url = IMAGE_ENDPOINT e,
      out_method = ''POST'',
      out_headers = [(''Authorization'', ''Bearer '' @ IMAGE_KEY e),
                     (''Content-Type'', ''application/json'')],
      out_body = JSON_stringify (number_to_string pf)
        (JObj [(''prompt'', get_prop args ''prompt''),
               (''steps'', get_prop args ''steps'')])\<rparr>"

definition generate_image :: "env \<Rightarrow> handler" where
  "generate_image e pf args =
     (if \<not> destructurable args then (Inl TypeError, [])
      else let req = generate_image_request e pf args in
        case net_fetch pf req of
          Inl m \<Rightarrow> (Inl (FetchRejected m), [req])
        | Inr res \<Rightarrow>
            if \<not> ok res then (Inl (Thrown (res_text res)), [req])
            else (case JSON_parse pf (res_text res) of
                    None \<Rightarrow> (Inl SyntaxError, [req])
                  | Some j \<Rightarrow>
                      if \<not> destructurable j then (Inl TypeError, [req])
                      else (Inr (JObj [(''content'', JArr
                              [JObj [(''type'', JStr ''image''),
                                     (''url'', get_prop j ''url'')]])]),
                            [req])))"

subsection \<open>Tool 3: translation\<close>

definition translate_text_schema :: zod where
  "translate_text_schema =
     ZObject [(''text'', ZString [SMin 1, SMax 10000]),
              (''targetLang'', ZString [SLength 2])]"

definition translate_text_request :: "env \<Rightarrow> platform \<Rightarrow> jsval \<Rightarrow> outbound" where
  "translate_text_request e pf args =
     \<lparr>out_url = TRANSLATE_ENDPOINT e @ ''?lang=''
                 @ to_string (number_to_string pf) (get_prop args ''targetLang''),
      out_method = ''POST'',
      out_headers = [],
      out_body = body_init (number_to_string pf) (get_prop args ''text'')\<rparr>"

definition translate_text :: "env \<Rightarrow> handler" where
  "translate_text e pf args =
     (if \<not> destructurable args then (Inl TypeError, [])
      else let req = translate_text_request e pf args in
        case net_fetch pf req of
          Inl m \<Rightarrow> (Inl (FetchRejected m), [req])
        | Inr res \<Rightarrow>
            if \<not> ok res then (Inl (Thrown (res_text res)), [req])
            else (Inr (JObj [(''content'', JArr
                    [JObj [(''type'', JStr ''text''),
                           (''text'', JStr (res_text res))]])]),
                  [req]))"

section \<open>The registry and its dispatcher\<close>

definition buildServer :: "env \<Rightarrow> mcp_server" where
  "buildServer e =
     \<lparr>server_name = ''ToolHub'',
      server_version = ''1.0.0'',
      tools =
        [\<lparr>tool_name = ''generate_audio'',
          tool_schema = generate_audio_schema,
          tool_handler = generate_audio e\<rparr>,
         \<lparr>tool_name = ''generate_image'',
          tool_schema = generate_image_schema,
          tool_handler = generate_image e\<rparr>,
         \<lparr>tool_name = ''translate_text'',
          tool_schema = translate_text_schema,
          tool_handler = translate_text e\<rparr>]\<rparr>"

text \<open>
  Modelled from the spec: the dispatcher of the \<open>McpServer\<close> library, whose code is not
  part of the repository's sources (only its callers \<open>mcp.tool(name, schema, handler)\<close>
  are). Section 4.4 of the specification: locate the definition by exact name match
  (an unknown-tool condition if absent), run the argument schema against the raw
  arguments, then invoke the handler with the validated arguments.
\<close>

definition call_tool :: "mcp_server \<Rightarrow> platform \<Rightarrow> string \<Rightarrow> jsval \<Rightarrow> tool_outcome" where
  "call_tool srv pf name raw =
     (case find (\<lambda>t. tool_name t = name) (tools srv) of
        None \<Rightarrow> (Inl UnknownTool, [])
      | Some t \<Rightarrow>
          (case parse (tool_schema t) raw of
             None \<Rightarrow> (Inl ZodError, [])
           | Some args \<Rightarrow> tool_handler t pf args))"

section \<open>The worker entry\<close>

text \<open>
  An inbound request, as far as the entry point reads it: the method, the query pairs of
  the parsed URL (\<open>url.searchParams\<close>; the URL of an inbound request always parses) and
  the header list. A response is the status, the header list and the body (\<open>None\<close> for
  the \<open>null\<close> body).
\<close>

record request =
  req_method :: string
  req_searchParams :: "(string \<times> string) list"
  req_headers :: "(string \<times> string) list"

record response =
  resp_status :: nat
  resp_headers :: "(string \<times> string) list"
  resp_body :: "string option"

definition CORS_HEADERS :: "(string \<times> string) list" where
  "CORS_HEADERS =
     [(''Access-Control-Allow-Origin'', ''*''),
      (''Access-Control-Allow-Methods'', ''GET, POST, OPTIONS''),
      (''Access-Control-Allow-Headers'', ''Content-Type, X-Api-Token''),
      (''Access-Control-Max-Age'', ''86400'')]"

text \<open>The helper \<open>json(data, status)\<close>; its only call passes the status.\<close>

definition json :: "platform \<Rightarrow> jsval \<Rightarrow> nat \<Rightarrow> response" where
  "json pf data status =
     \<lparr>resp_status = status,
      resp_headers = (''Content-Type'', ''application/json'') # CORS_HEADERS,
      resp_body = JSON_stringify (number_to_string pf) data\<rparr>"

text \<open>\<open>searchParams.get\<close> returns the first value of the name, or \<open>null\<close>.\<close>

definition searchParams_get :: "(string \<times> string) list \<Rightarrow> string \<Rightarrow> string option" where
  "searchParams_get qs name = map_of qs name"

text \<open>\<open>headers.get\<close> matches the name without regard to ASCII case and returns the values
  of the name joined by a comma and a space, or \<open>null\<close>.\<close>

definition lower_char :: "char \<Rightarrow> char" where
  "lower_char c =
     (case map_of (zip ''ABCDEFGHIJKLMNOPQRSTUVWXYZ'' ''abcdefghijklmnopqrstuvwxyz'') c of
        Some l \<Rightarrow> l
      | None \<Rightarrow> c)"

definition headers_get :: "(string \<times> string) list \<Rightarrow> string \<Rightarrow> string option" where
  "headers_get hs name =
     (case filter (\<lambda>h. map lower_char (fst h) = map lower_char name) hs of
        [] \<Rightarrow> None
      | ms \<Rightarrow> Some (join '', '' (map snd ms)))"

text \<open>The token of a request: \<open>a ?? b\<close> is \<open>b\<close> only when \<open>a\<close> is \<open>null\<close>.\<close>

definition request_token :: "request \<Rightarrow> string option" where
  "request_token r =
     (case searchParams_get (req_searchParams r) ''token'' of
        Some t \<Rightarrow> Some t
      | None \<Rightarrow> headers_get (req_headers r) ''X-Api-Token'')"

text \<open>\<open>!token\<close> holds of \<open>null\<close> and of the empty string.\<close>

definition falsy :: "string option \<Rightarrow> bool" where
  "falsy t = (case t of None \<Rightarrow> True | Some s \<Rightarrow> s = [])"

text \<open>
  What one invocation of the entry point does beyond its response is recorded as a list
  of events: \<open>Constructed\<close> is a run of \<open>buildServer\<close>, \<open>Handled\<close> the delegation to the
  cached server's \<open>handle\<close>, and \<open>Called q\<close> an outbound call \<open>q\<close> that the delegate made.
  The delegate \<open>handle\<close> belongs to the transport library and is a parameter: it gets
  the server, the request and the environment, and returns its response together with
  the outbound calls of the tools it ran.
\<close>

datatype event = Constructed | Handled | Called outbound

type_synonym transport = "mcp_server \<Rightarrow> request \<Rightarrow> env \<Rightarrow> response \<times> outbound list"

definition fetch :: "platform \<Rightarrow> transport \<Rightarrow> request \<Rightarrow> env \<Rightarrow> response \<times> env \<times> event list" where
  "fetch pf handle r e =
     (if req_method r = ''OPTIONS''
      then (\<lparr>resp_status = 204, resp_headers = CORS_HEADERS, resp_body = None\<rparr>, e, [])
      else let token = request_token r in
        if falsy token \<or> token \<noteq> Some (HUB_TOKEN e)
        then (json pf (JObj [(''success'', JBool False), (''error'', JStr ''Unauthorized'')]) 401,
              e, [])
        else
          let (srv, built) =
                (case SERVER e of
                   None \<Rightarrow> (buildServer e, [Constructed])
                 | Some s \<Rightarrow> (s, []));
              e' = e\<lparr>SERVER := Some srv\<rparr>;
              (resp, calls) = handle srv r e'
          in (resp, e', built @ [Handled] @ map Called calls))"

text \<open>
  The running process (the isolate, in the words of the source: the server is "cached per
  isolate"): the host hands the requests to the entry point one invocation after the
  other, on one environment object, whose cache handle lives as long as the process.
  Between the test of the handle and the assignment to it the entry point does not
  suspend, so no other invocation runs in between. The responses are returned in order,
  with the final environment and the events of all invocations.
\<close>

fun serve :: "platform \<Rightarrow> transport \<Rightarrow> request list \<Rightarrow> env \<Rightarrow> response list \<times> env \<times> event list" where
  "serve pf handle [] e = ([], e, [])"
| "serve pf handle (r # rs) e =
     (let (resp, e1, ev1) = fetch pf handle r e;
          (resps, e2, ev2) = serve pf handle rs e1
      in (resp # resps, e2, ev1 @ ev2))"

section \<open>The properties, in the specification's words\<close>

text \<open>The gate lets a request through when it is no preflight and its token is the
  non-empty hub secret.\<close>

definition passes_gate :: "request \<Rightarrow> env \<Rightarrow> bool" where
  "passes_gate r e =
     (req_method r \<noteq> ''OPTIONS'' \<and> HUB_TOKEN e \<noteq> [] \<and> request_token r = Some (HUB_TOKEN e))"

text \<open>The schema violations that the specification lists: a required field is missing, a
  string is outside its length range, a number is outside its integer range (it is below
  the range, above it, or no integer), a fixed-length field has another length.\<close>

definition missing :: "jsval \<Rightarrow> string \<Rightarrow> bool" where
  "missing raw k = (get_prop raw k = JUndefined)"

definition length_outside :: "jsval \<Rightarrow> nat \<Rightarrow> nat \<Rightarrow> bool" where
  "length_outside v lo hi = (case v of JStr s \<Rightarrow> length s < lo \<or> hi < length s | _ \<Rightarrow> False)"

definition number_outside :: "jsval \<Rightarrow> rat \<Rightarrow> rat \<Rightarrow> bool" where
  "number_outside v lo hi =
     (case v of JNum x \<Rightarrow> x < lo \<or> hi < x \<or> of_int \<lfloor>x\<rfloor> \<noteq> x | _ \<Rightarrow> False)"

definition wrong_length :: "jsval \<Rightarrow> nat \<Rightarrow> bool" where
  "wrong_length v n = (case v of JStr s \<Rightarrow> length s \<noteq> n | _ \<Rightarrow> False)"

definition violates :: "string \<Rightarrow> jsval \<Rightarrow> bool" where
  "violates name raw =
     (if name = ''generate_audio'' then
        missing raw ''text'' \<or> missing raw ''voiceId''
        \<or> length_outside (get_prop raw ''text'') 1 5000
      else if name = ''generate_image'' then
        missing raw ''prompt''
        \<or> length_outside (get_prop raw ''prompt'') 1 800
        \<or> number_outside (get_prop raw ''steps'') 1 100
      else if name = ''translate_text'' then
        missing raw ''text'' \<or> missing raw ''targetLang''
        \<or> length_outside (get_prop raw ''text'') 1 10000
        \<or> wrong_length (get_prop raw ''targetLang'') 2
      else False)"

text \<open>A content block as the data model of the specification describes it: a text block
  carries literal text, an audio or image block carries a URL and a MIME type.\<close>

definition is_string :: "jsval \<Rightarrow> bool" where
  "is_string v = (case v of JStr s \<Rightarrow> True | _ \<Rightarrow> False)"

definition spec_block_ok :: "jsval \<Rightarrow> bool" where
  "spec_block_ok b =
     (if get_prop b ''type'' = JStr ''text'' then is_string (get_prop b ''text'')
      else if get_prop b ''type'' = JStr ''audio'' \<or> get_prop b ''type'' = JStr ''image'' then
        is_string (get_prop b ''url'')
        \<and> (is_string (get_prop b ''mime_type'') \<or> is_string (get_prop b ''mimeType''))
      else False)"

definition content_blocks :: "jsval \<Rightarrow> jsval list" where
  "content_blocks result = (case get_prop result ''content'' of JArr bs \<Rightarrow> bs | _ \<Rightarrow> [])"

text \<open>A content block as the handlers build it, where \<open>j\<close> is the JSON of the downstream
  response: a text block with literal text, an audio block whose \<open>url\<close> is the \<open>audioUrl\<close>
  of \<open>j\<close> and whose MIME type is \<open>audio/mpeg\<close>, or an image block whose only other property
  is the \<open>url\<close> of \<open>j\<close>.\<close>

definition code_block_ok :: "jsval \<Rightarrow> jsval \<Rightarrow> bool" where
  "code_block_ok j b =
     (is_string (get_prop b ''text'')
        \<and> b = JObj [(''type'', JStr ''text''), (''text'', get_prop b ''text'')]
      \<or> b = JObj [(''type'', JStr ''audio''), (''url'', get_prop j ''audioUrl''),
                  (''mime_type'', JStr ''audio/mpeg'')]
      \<or> b = JObj [(''type'', JStr ''image''), (''url'', get_prop j ''url'')])"

text \<open>The JSON of the downstream response to the one call of a handler; \<open>undefined\<close> when
  there is no such call, no response or no JSON.\<close>

definition downstream_json :: "platform \<Rightarrow> outbound list \<Rightarrow> jsval" where
  "downstream_json pf calls =
     (case calls of
        [q] \<Rightarrow>
          (case net_fetch pf q of
             Inr res \<Rightarrow> (case JSON_parse pf (res_text res) of Some j \<Rightarrow> j | None \<Rightarrow> JUndefined)
           | Inl m \<Rightarrow> JUndefined)
      | _ \<Rightarrow> JUndefined)"

text \<open>The number of registry constructions among the events of a run.\<close>

definition constructions :: "event list \<Rightarrow> nat" where
  "constructions evs = length (filter (\<lambda>v. v = Constructed) evs)"

section \<open>Concrete inputs\<close>

text \<open>An environment, a second one with other credentials, and a platform whose network
  is a mock: the text-to-speech and the image endpoints answer 200 with the documented
  JSON, anything else is unreachable. The example \<open>JSON.parse\<close> knows the two bodies of
  the mock, and the example \<open>Number::toString\<close> prints natural numbers in decimal.\<close>

definition example_env :: env where
  "example_env =
     \<lparr>HUB_TOKEN = ''hub-secret'',
      TTS_ENDPOINT = ''https://tts.example/'',
      TTS_TOKEN = ''tts-secret'',
      IMAGE_ENDPOINT = ''https://img.example/generate'',
      IMAGE_KEY = ''img-key'',
      TRANSLATE_ENDPOINT = ''https://tr.example/'',
      SERVER = None\<rparr>"

definition other_env :: env where
  "other_env =
     \<lparr>HUB_TOKEN = ''another-hub-secret'',
      TTS_ENDPOINT = ''https://tts.example/'',
      TTS_TOKEN = ''another-tts-secret'',
      IMAGE_ENDPOINT = ''https://img.example/generate'',
      IMAGE_KEY = ''another-img-key'',
      TRANSLATE_ENDPOINT = ''https://tr.example/'',
      SERVER = None\<rparr>"

fun decimal :: "nat \<Rightarrow> string" where
  "decimal n =
     (if n < 10 then [''0123456789'' ! n]
      else decimal (n div 10) @ [''0123456789'' ! (n mod 10)])"

declare decimal.simps [simp del]

declare decimal.simps [simp del]

definition example_JSON_parse :: "string \<Rightarrow> jsval option" where
  \<open>example_JSON_parse s =
     map_of [(''{"audioUrl":"https://x/a.mp3"}'', JObj [(''audioUrl'', JStr ''https://x/a.mp3'')]),
             (''{"url":"https://x/i.png"}'', JObj [(''url'', JStr ''https://x/i.png'')])] s\<close>

definition example_net :: "outbound \<Rightarrow> string + downstream_response" where
  \<open>example_net q =
     (if take 20 (out_url q) = ''https://tts.example/''
        then Inr \<lparr>res_status = 200, res_text = ''{"audioUrl":"https://x/a.mp3"}''\<rparr>
      else if out_url q = ''https://img.example/generate''
        then Inr \<lparr>res_status = 200, res_text = ''{"url":"https://x/i.png"}''\<rparr>
      else Inl ''unreachable'')\<close>

definition example_platform :: platform where
  "example_platform =
     \<lparr>number_to_string = (\<lambda>x. decimal (nat \<lfloor>x\<rfloor>)),
      JSON_parse = example_JSON_parse,
      net_fetch = example_net\<rparr>"

text \<open>The mock of the specification's failure test: every call answers 500 \<open>boom\<close>.\<close>

definition boom_platform :: platform where
  "boom_platform =
     example_platform\<lparr>net_fetch := (\<lambda>q. Inr \<lparr>res_status = 500, res_text = ''boom''\<rparr>)\<rparr>"

text \<open>A transport that answers every delegated request with 200 and runs no tool.\<close>

definition example_transport :: transport where
  "example_transport srv r e =
     (\<lparr>resp_status = 200, resp_headers = [], resp_body = Some (server_name srv)\<rparr>, [])"

definition preflight_request :: request where
  "preflight_request =
     \<lparr>req_method = ''OPTIONS'', req_searchParams = [], req_headers = []\<rparr>"

definition anonymous_request :: request where
  "anonymous_request =
     \<lparr>req_method = ''GET'', req_searchParams = [], req_headers = []\<rparr>"

definition wrong_token_request :: request where
  "wrong_token_request =
     \<lparr>req_method = ''GET'', req_searchParams = [(''token'', ''guess'')], req_headers = []\<rparr>"

definition empty_query_token_request :: request where
  "empty_query_token_request =
     \<lparr>req_method = ''GET'', req_searchParams = [(''token'', [])],
      req_headers = [(''x-api-token'', ''hub-secret'')]\<rparr>"

definition header_token_request :: request where
  "header_token_request =
     \<lparr>req_method = ''POST'', req_searchParams = [],
      req_headers = [(''x-api-token'', ''hub-secret'')]\<rparr>"

definition query_token_request :: request where
  "query_token_request =
     \<lparr>req_method = ''GET'', req_searchParams = [(''token'', ''hub-secret'')], req_headers = []\<rparr>"

definition built_env :: env where
  "built_env = example_env\<lparr>SERVER := Some (buildServer example_env)\<rparr>"

text \<open>Arguments of tool calls: validated ones, as the schemas return them, the three
  invalid raw ones of the specification's tests, and one with a step count that is no
  integer.\<close>

definition valid_audio_args :: jsval where
  "valid_audio_args =
     JObj [(''text'', JStr ''hello''), (''voiceId'', JStr ''v1''),
           (''modelId'', JStr ''eleven_turbo_v2'')]"

definition valid_image_args :: jsval where
  "valid_image_args = JObj [(''prompt'', JStr ''a cat''), (''steps'', JNum 30)]"

definition valid_translate_args :: jsval where
  "valid_translate_args = JObj [(''text'', JStr ''hello''), (''targetLang'', JStr ''fr'')]"

definition steps_150_args :: jsval where
  "steps_150_args = JObj [(''prompt'', JStr ''a cat''), (''steps'', JNum 150)]"

definition fractional_steps_args :: jsval where
  "fractional_steps_args = JObj [(''prompt'', JStr ''a cat''), (''steps'', JNum (3 / 2))]"

definition empty_text_args :: jsval where
  "empty_text_args = JObj [(''text'', JStr []), (''voiceId'', JStr ''v1'')]"

definition three_letter_lang_args :: jsval where
  "three_letter_lang_args = JObj [(''text'', JStr ''hello''), (''targetLang'', JStr ''eng'')]"

section \<open>The authentication gate\<close>

lemma unauthorized_body:
  \<open>JSON_stringify nf (JObj [(''success'', JBool False), (''error'', JStr ''Unauthorized'')])
     = Some ''{"success":false,"error":"Unauthorized"}''\<close>
  by (simp add: quote_def quote_unit_def)

text \<open>Whatever fails the test \<open>!token || token !== env.HUB_TOKEN\<close> gets the 401 response,
  the environment is returned as it was and no event happens: the result does not depend
  on the transport, which is never reached.\<close>

lemma fetch_rejects:
  assumes "req_method r \<noteq> ''OPTIONS''"
    and "falsy (request_token r) \<or> request_token r \<noteq> Some (HUB_TOKEN e)"
  shows \<open>fetch pf handle r e =
     (\<lparr>resp_status = 401,
       resp_headers =
         [(''Content-Type'', ''application/json''),
          (''Access-Control-Allow-Origin'', ''*''),
          (''Access-Control-Allow-Methods'', ''GET, POST, OPTIONS''),
          (''Access-Control-Allow-Headers'', ''Content-Type, X-Api-Token''),
          (''Access-Control-Max-Age'', ''86400'')],
       resp_body = Some ''{"success":false,"error":"Unauthorized"}''\<rparr>, e, [])\<close>
  using assms unfolding fetch_def json_def CORS_HEADERS_def Let_def unauthorized_body
  by auto

text \<open>
  Claim C1. A request that is not a preflight and that carries neither the \<open>token\<close> query
  parameter nor the \<open>X-Api-Token\<close> header, or whose token is not the hub secret, is
  answered with status 401 and the body \<open>{"success":false,"error":"Unauthorized"}\<close>.
  Nothing else happens: the environment, and with it the cache handle, is unchanged, and
  the event list is empty, so the registry was neither constructed nor handed the
  request, and no outbound call was made.
\<close>

theorem unauthorized_request_rejected:
  assumes "req_method r \<noteq> ''OPTIONS''"
    and "(searchParams_get (req_searchParams r) ''token'' = None
          \<and> headers_get (req_headers r) ''X-Api-Token'' = None)
         \<or> request_token r \<noteq> Some (HUB_TOKEN e)"
  shows \<open>fetch pf handle r e =
     (\<lparr>resp_status = 401,
       resp_headers =
         [(''Content-Type'', ''application/json''),
          (''Access-Control-Allow-Origin'', ''*''),
          (''Access-Control-Allow-Methods'', ''GET, POST, OPTIONS''),
          (''Access-Control-Allow-Headers'', ''Content-Type, X-Api-Token''),
          (''Access-Control-Max-Age'', ''86400'')],
       resp_body = Some ''{"success":false,"error":"Unauthorized"}''\<rparr>, e, [])\<close>
proof -
  have "falsy (request_token r) \<or> request_token r \<noteq> Some (HUB_TOKEN e)"
    using assms(2) by (auto simp: request_token_def falsy_def)
  with assms(1) show ?thesis by (rule fetch_rejects)
qed

lemma anonymous_has_no_token:
  "searchParams_get (req_searchParams anonymous_request) ''token'' = None
   \<and> headers_get (req_headers anonymous_request) ''X-Api-Token'' = None"
  by (simp add: anonymous_request_def searchParams_get_def headers_get_def)

text \<open>Claim C1 at two requests: one without any token, one with a wrong query token.\<close>

theorem unauthorized_request_rejected_witness:
  \<open>req_method anonymous_request \<noteq> ''OPTIONS''
   \<and> searchParams_get (req_searchParams anonymous_request) ''token'' = None
   \<and> headers_get (req_headers anonymous_request) ''X-Api-Token'' = None
   \<and> req_method wrong_token_request \<noteq> ''OPTIONS''
   \<and> request_token wrong_token_request \<noteq> Some (HUB_TOKEN example_env)
   \<and> fetch example_platform example_transport anonymous_request example_env =
     (\<lparr>resp_status = 401,
       resp_headers =
         [(''Content-Type'', ''application/json''),
          (''Access-Control-Allow-Origin'', ''*''),
          (''Access-Control-Allow-Methods'', ''GET, POST, OPTIONS''),
          (''Access-Control-Allow-Headers'', ''Content-Type, X-Api-Token''),
          (''Access-Control-Max-Age'', ''86400'')],
       resp_body = Some ''{"success":false,"error":"Unauthorized"}''\<rparr>, example_env, [])
   \<and> fetch example_platform example_transport wrong_token_request example_env =
     (\<lparr>resp_status = 401,
       resp_headers =
         [(''Content-Type'', ''application/json''),
          (''Access-Control-Allow-Origin'', ''*''),
          (''Access-Control-Allow-Methods'', ''GET, POST, OPTIONS''),
          (''Access-Control-Allow-Headers'', ''Content-Type, X-Api-Token''),
          (''Access-Control-Max-Age'', ''86400'')],
       resp_body = Some ''{"success":false,"error":"Unauthorized"}''\<rparr>, example_env, [])\<close>
proof -
  have m1: "req_method anonymous_request \<noteq> ''OPTIONS''"
    by (simp add: anonymous_request_def)
  have m2: "req_method wrong_token_request \<noteq> ''OPTIONS''"
    by (simp add: wrong_token_request_def)
  have t2: "request_token wrong_token_request \<noteq> Some (HUB_TOKEN example_env)"
    by (simp add: wrong_token_request_def request_token_def searchParams_get_def example_env_def)
  show ?thesis
    using anonymous_has_no_token m1 m2 t2
      unauthorized_request_rejected [of anonymous_request example_env example_platform example_transport]
      unauthorized_request_rejected [of wrong_token_request example_env example_platform example_transport]
    by simp
qed

text \<open>
  Claim C10. A request that is not a preflight and whose URL has the \<open>token\<close> query
  parameter with the empty value is answered with the 401 response whatever its
  \<open>X-Api-Token\<close> header holds: the empty query value is not \<open>null\<close>, so it is the token
  that the gate tests, and the empty token fails the test.
\<close>

theorem empty_query_token_rejected:
  assumes "req_method r \<noteq> ''OPTIONS''"
    and "searchParams_get (req_searchParams r) ''token'' = Some []"
  shows \<open>request_token r = Some [] \<and> fetch pf handle r e =
     (\<lparr>resp_status = 401,
       resp_headers =
         [(''Content-Type'', ''application/json''),
          (''Access-Control-Allow-Origin'', ''*''),
          (''Access-Control-Allow-Methods'', ''GET, POST, OPTIONS''),
          (''Access-Control-Allow-Headers'', ''Content-Type, X-Api-Token''),
          (''Access-Control-Max-Age'', ''86400'')],
       resp_body = Some ''{"success":false,"error":"Unauthorized"}''\<rparr>, e, [])\<close>
proof -
  have t: "request_token r = Some []"
    using assms(2) by (simp add: request_token_def)
  then have "falsy (request_token r) \<or> request_token r \<noteq> Some (HUB_TOKEN e)"
    by (simp add: falsy_def)
  with assms(1) t show ?thesis by (simp add: fetch_rejects)
qed

text \<open>Claim C10 at a request with \<open>?token=\<close> whose header holds the hub secret.\<close>

theorem empty_query_token_rejected_witness:
  \<open>req_method empty_query_token_request \<noteq> ''OPTIONS''
   \<and> searchParams_get (req_searchParams empty_query_token_request) ''token'' = Some []
   \<and> headers_get (req_headers empty_query_token_request) ''X-Api-Token''
       = Some (HUB_TOKEN example_env)
   \<and> fetch example_platform example_transport empty_query_token_request example_env =
     (\<lparr>resp_status = 401,
       resp_headers =
         [(''Content-Type'', ''application/json''),
          (''Access-Control-Allow-Origin'', ''*''),
          (''Access-Control-Allow-Methods'', ''GET, POST, OPTIONS''),
          (''Access-Control-Allow-Headers'', ''Content-Type, X-Api-Token''),
          (''Access-Control-Max-Age'', ''86400'')],
       resp_body = Some ''{"success":false,"error":"Unauthorized"}''\<rparr>, example_env, [])\<close>
proof -
  have m: "req_method empty_query_token_request \<noteq> ''OPTIONS''"
    by (simp add: empty_query_token_request_def)
  have q: "searchParams_get (req_searchParams empty_query_token_request) ''token'' = Some []"
    by (simp add: empty_query_token_request_def searchParams_get_def)
  have h: "headers_get (req_headers empty_query_token_request) ''X-Api-Token''
             = Some (HUB_TOKEN example_env)"
    by (simp add: empty_query_token_request_def headers_get_def lower_char_def example_env_def)
  show ?thesis
    using m q h
      empty_query_token_rejected [OF m q, of example_platform example_transport example_env]
    by simp
qed

section \<open>The preflight\<close>

text \<open>
  Claim C6, as the specification states it, at a preflight request: the response would
  carry five CORS headers. It carries four.
\<close>

theorem preflight_five_headers_counterexample:
  "length (resp_headers (fst (fetch example_platform example_transport
      preflight_request example_env))) \<noteq> 5"
  by (simp add: fetch_def preflight_request_def CORS_HEADERS_def)

text \<open>
  Claim C6, amended. Every request with the method \<open>OPTIONS\<close> is answered with status
  204, no body and exactly the four CORS headers of the table; the token of the request
  is not looked at, and the environment and the registry are left alone.
\<close>

theorem preflight_answered_without_gate:
  assumes "req_method r = ''OPTIONS''"
  shows "fetch pf handle r e =
     (\<lparr>resp_status = 204,
       resp_headers =
         [(''Access-Control-Allow-Origin'', ''*''),
          (''Access-Control-Allow-Methods'', ''GET, POST, OPTIONS''),
          (''Access-Control-Allow-Headers'', ''Content-Type, X-Api-Token''),
          (''Access-Control-Max-Age'', ''86400'')],
       resp_body = None\<rparr>, e, [])"
  using assms by (simp add: fetch_def CORS_HEADERS_def)

text \<open>Claim C6, amended, at a preflight request that carries no token.\<close>

theorem preflight_answered_without_gate_witness:
  "req_method preflight_request = ''OPTIONS''
   \<and> request_token preflight_request = None
   \<and> fetch example_platform example_transport preflight_request example_env =
     (\<lparr>resp_status = 204,
       resp_headers =
         [(''Access-Control-Allow-Origin'', ''*''),
          (''Access-Control-Allow-Methods'', ''GET, POST, OPTIONS''),
          (''Access-Control-Allow-Headers'', ''Content-Type, X-Api-Token''),
          (''Access-Control-Max-Age'', ''86400'')],
       resp_body = None\<rparr>, example_env, [])"
proof -
  have m: "req_method preflight_request = ''OPTIONS''"
    by (simp add: preflight_request_def)
  have t: "request_token preflight_request = None"
    by (simp add: preflight_request_def request_token_def searchParams_get_def headers_get_def)
  show ?thesis
    using m t
      preflight_answered_without_gate [OF m, of example_platform example_transport example_env]
    by simp
qed

section \<open>Validation before dispatch\<close>

lemma call_tool_generate_audio:
  "call_tool (buildServer e) pf ''generate_audio'' raw =
     (case parse generate_audio_schema raw of
        None \<Rightarrow> (Inl ZodError, [])
      | Some args \<Rightarrow> generate_audio e pf args)"
  by (simp add: call_tool_def buildServer_def split: option.splits)

lemma call_tool_generate_image:
  "call_tool (buildServer e) pf ''generate_image'' raw =
     (case parse generate_image_schema raw of
        None \<Rightarrow> (Inl ZodError, [])
      | Some args \<Rightarrow> generate_image e pf args)"
  by (simp add: call_tool_def buildServer_def split: option.splits)

lemma call_tool_translate_text:
  "call_tool (buildServer e) pf ''translate_text'' raw =
     (case parse translate_text_schema raw of
        None \<Rightarrow> (Inl ZodError, [])
      | Some args \<Rightarrow> translate_text e pf args)"
  by (simp add: call_tool_def buildServer_def split: option.splits)

text \<open>What each schema accepts, and what it returns then.\<close>

lemma parse_generate_audio_schema:
  "parse generate_audio_schema raw = Some args \<longleftrightarrow>
     (\<exists>ps t v m. raw = JObj ps
        \<and> get_prop raw ''text'' = JStr t \<and> 1 \<le> length t \<and> length t \<le> 5000
        \<and> get_prop raw ''voiceId'' = JStr v
        \<and> (get_prop raw ''modelId'' = JUndefined \<and> m = ''eleven_turbo_v2''
            \<or> get_prop raw ''modelId'' = JStr m)
        \<and> args = JObj [(''text'', JStr t), (''voiceId'', JStr v), (''modelId'', JStr m)])"
proof (cases raw)
  case (JObj ps)
  show ?thesis
    unfolding generate_audio_schema_def JObj
    by (cases "get_prop (JObj ps) ''text''"; cases "get_prop (JObj ps) ''voiceId''";
        cases "get_prop (JObj ps) ''modelId''") (auto split: option.splits)
qed (simp_all add: generate_audio_schema_def)

lemma parse_generate_image_schema:
  "parse generate_image_schema raw = Some args \<longleftrightarrow>
     (\<exists>ps p n. raw = JObj ps
        \<and> get_prop raw ''prompt'' = JStr p \<and> 1 \<le> length p \<and> length p \<le> 800
        \<and> (get_prop raw ''steps'' = JUndefined \<and> n = 30
            \<or> get_prop raw ''steps'' = JNum n \<and> of_int \<lfloor>n\<rfloor> = n \<and> 1 \<le> n \<and> n \<le> 100)
        \<and> args = JObj [(''prompt'', JStr p), (''steps'', JNum n)])"
proof (cases raw)
  case (JObj ps)
  show ?thesis
    unfolding generate_image_schema_def JObj
    by (cases "get_prop (JObj ps) ''prompt''"; cases "get_prop (JObj ps) ''steps''")
       (auto split: option.splits)
qed (simp_all add: generate_image_schema_def)

lemma parse_translate_text_schema:
  "parse translate_text_schema raw = Some args \<longleftrightarrow>
     (\<exists>ps t l. raw = JObj ps
        \<and> get_prop raw ''text'' = JStr t \<and> 1 \<le> length t \<and> length t \<le> 10000
        \<and> get_prop raw ''targetLang'' = JStr l \<and> length l = 2
        \<and> args = JObj [(''text'', JStr t), (''targetLang'', JStr l)])"
proof (cases raw)
  case (JObj ps)
  show ?thesis
    unfolding translate_text_schema_def JObj
    by (cases "get_prop (JObj ps) ''text''"; cases "get_prop (JObj ps) ''targetLang''")
       (auto split: option.splits)
qed (simp_all add: translate_text_schema_def)

lemma violates_parse_fails:
  assumes "violates name raw"
  shows "name = ''generate_audio'' \<and> parse generate_audio_schema raw = None
       \<or> name = ''generate_image'' \<and> parse generate_image_schema raw = None
       \<or> name = ''translate_text'' \<and> parse translate_text_schema raw = None"
proof -
  consider (a) "name = ''generate_audio''" | (i) "name = ''generate_image''"
    | (t) "name = ''translate_text''"
    using assms by (auto simp: violates_def split: if_splits)
  then show ?thesis
  proof cases
    case a
    have "parse generate_audio_schema raw \<noteq> Some args" for args
      using assms a unfolding parse_generate_audio_schema
      by (auto simp: violates_def missing_def length_outside_def)
    then show ?thesis using a by (cases "parse generate_audio_schema raw") auto
  next
    case i
    have "parse generate_image_schema raw \<noteq> Some args" for args
      using assms i unfolding parse_generate_image_schema
      by (auto simp: violates_def missing_def length_outside_def number_outside_def)
    then show ?thesis using i by (cases "parse generate_image_schema raw") auto
  next
    case t
    have "parse translate_text_schema raw \<noteq> Some args" for args
      using assms t unfolding parse_translate_text_schema
      by (auto simp: violates_def missing_def length_outside_def wrong_length_def)
    then show ?thesis using t by (cases "parse translate_text_schema raw") auto
  qed
qed

text \<open>
  Claim C2. A call of one of the three tools whose raw arguments violate the tool's
  schema in one of the listed ways (a required field is missing, a string is outside
  its length range, \<open>steps\<close> is a number that is not an integer from 1 to 100,
  \<open>targetLang\<close> is a string of another length than 2) fails with the validation error, and the list of outbound calls
  is empty: the handler was not run.
\<close>

theorem schema_violation_stops_before_handler:
  assumes "violates name raw"
  shows "call_tool (buildServer e) pf name raw = (Inl ZodError, [])"
  using violates_parse_fails [OF assms]
  by (auto simp: call_tool_generate_audio call_tool_generate_image call_tool_translate_text)

text \<open>Claim C2 at the three invalid calls of the specification's tests (\<open>steps = 150\<close>,
  an empty \<open>text\<close>, the three-letter language \<open>eng\<close>) and at \<open>steps = 3/2\<close>.\<close>

theorem schema_violation_stops_before_handler_witness:
  "violates ''generate_image'' steps_150_args
   \<and> call_tool (buildServer example_env) example_platform ''generate_image'' steps_150_args
       = (Inl ZodError, [])
   \<and> violates ''generate_audio'' empty_text_args
   \<and> call_tool (buildServer example_env) example_platform ''generate_audio'' empty_text_args
       = (Inl ZodError, [])
   \<and> violates ''translate_text'' three_letter_lang_args
   \<and> call_tool (buildServer example_env) example_platform ''translate_text''
         three_letter_lang_args
       = (Inl ZodError, [])
   \<and> violates ''generate_image'' fractional_steps_args
   \<and> call_tool (buildServer example_env) example_platform ''generate_image''
         fractional_steps_args
       = (Inl ZodError, [])"
proof -
  have v1: "violates ''generate_image'' steps_150_args"
    by (simp add: violates_def steps_150_args_def missing_def length_outside_def
          number_outside_def)
  have v2: "violates ''generate_audio'' empty_text_args"
    by (simp add: violates_def empty_text_args_def missing_def length_outside_def)
  have v3: "violates ''translate_text'' three_letter_lang_args"
    by (simp add: violates_def three_letter_lang_args_def missing_def length_outside_def
          wrong_length_def)
  have v4: "violates ''generate_image'' fractional_steps_args"
    by code_simp
  show ?thesis
    using v1 v2 v3 v4
      schema_violation_stops_before_handler [OF v1, of example_env example_platform]
      schema_violation_stops_before_handler [OF v2, of example_env example_platform]
      schema_violation_stops_before_handler [OF v3, of example_env example_platform]
      schema_violation_stops_before_handler [OF v4, of example_env example_platform]
    by simp
qed

text \<open>
  Claim C5. A \<open>generate_audio\<close> call with a valid \<open>text\<close> and \<open>voiceId\<close> and without
  \<open>modelId\<close> makes one outbound call, whose body is the JSON text of the object with the
  given \<open>text\<close> and \<open>voiceId\<close> and with \<open>modelId\<close> equal to \<open>eleven_turbo_v2\<close>; a
  \<open>generate_image\<close> call with a valid \<open>prompt\<close> and without \<open>steps\<close> makes one outbound
  call, whose body is the JSON text of the object with the given \<open>prompt\<close> and with
  \<open>steps\<close> equal to 30.
\<close>

theorem declared_defaults_reach_downstream:
  "(map_of ps ''text'' = Some (JStr t) \<and> 1 \<le> length t \<and> length t \<le> 5000
      \<and> map_of ps ''voiceId'' = Some (JStr v) \<and> map_of ps ''modelId'' = None
    \<longrightarrow> map out_body (snd (call_tool (buildServer e) pf ''generate_audio'' (JObj ps)))
        = [JSON_stringify (number_to_string pf)
             (JObj [(''text'', JStr t), (''voiceId'', JStr v),
                    (''modelId'', JStr ''eleven_turbo_v2'')])])
   \<and> (map_of qs ''prompt'' = Some (JStr p) \<and> 1 \<le> length p \<and> length p \<le> 800
      \<and> map_of qs ''steps'' = None
    \<longrightarrow> map out_body (snd (call_tool (buildServer e) pf ''generate_image'' (JObj qs)))
        = [JSON_stringify (number_to_string pf)
             (JObj [(''prompt'', JStr p), (''steps'', JNum 30)])])"
proof (intro conjI impI)
  assume h: "map_of ps ''text'' = Some (JStr t) \<and> 1 \<le> length t \<and> length t \<le> 5000
      \<and> map_of ps ''voiceId'' = Some (JStr v) \<and> map_of ps ''modelId'' = None"
  let ?args = "JObj [(''text'', JStr t), (''voiceId'', JStr v),
                     (''modelId'', JStr ''eleven_turbo_v2'')]"
  have "parse generate_audio_schema (JObj ps) = Some ?args"
    unfolding parse_generate_audio_schema using h by simp
  then have "call_tool (buildServer e) pf ''generate_audio'' (JObj ps)
               = generate_audio e pf ?args"
    by (simp add: call_tool_generate_audio)
  then show "map out_body (snd (call_tool (buildServer e) pf ''generate_audio'' (JObj ps)))
        = [JSON_stringify (number_to_string pf) ?args]"
    by (simp add: generate_audio_def generate_audio_request_def destructurable_def Let_def
          split: sum.splits option.splits)
next
  assume h: "map_of qs ''prompt'' = Some (JStr p) \<and> 1 \<le> length p \<and> length p \<le> 800
      \<and> map_of qs ''steps'' = None"
  let ?args = "JObj [(''prompt'', JStr p), (''steps'', JNum 30)]"
  have "parse generate_image_schema (JObj qs) = Some ?args"
    unfolding parse_generate_image_schema using h by simp
  then have "call_tool (buildServer e) pf ''generate_image'' (JObj qs)
               = generate_image e pf ?args"
    by (simp add: call_tool_generate_image)
  then show "map out_body (snd (call_tool (buildServer e) pf ''generate_image'' (JObj qs)))
        = [JSON_stringify (number_to_string pf) ?args]"
    by (simp add: generate_image_def generate_image_request_def destructurable_def Let_def
          split: sum.splits option.splits)
qed

lemma decimal_30: "decimal 30 = ''30''"
  by (simp add: decimal.simps)

text \<open>Claim C5 at a call of each tool, with the bodies written out.\<close>

theorem declared_defaults_reach_downstream_witness:
  \<open>map_of [(''text'', JStr ''hello''), (''voiceId'', JStr ''v1'')] ''modelId'' = None
   \<and> map_of [(''prompt'', JStr ''a cat'')] ''steps'' = None
   \<and> map out_body (snd (call_tool (buildServer example_env) example_platform
         ''generate_audio'' (JObj [(''text'', JStr ''hello''), (''voiceId'', JStr ''v1'')])))
       = [Some ''{"text":"hello","voiceId":"v1","modelId":"eleven_turbo_v2"}'']
   \<and> map out_body (snd (call_tool (buildServer example_env) example_platform
         ''generate_image'' (JObj [(''prompt'', JStr ''a cat'')])))
       = [Some ''{"prompt":"a cat","steps":30}'']\<close>
proof -
  have a: "map_of [(''text'', JStr ''hello''), (''voiceId'', JStr ''v1'')] ''text''
             = Some (JStr ''hello'')
           \<and> 1 \<le> length ''hello'' \<and> length ''hello'' \<le> 5000
           \<and> map_of [(''text'', JStr ''hello''), (''voiceId'', JStr ''v1'')] ''voiceId''
             = Some (JStr ''v1'')
           \<and> map_of [(''text'', JStr ''hello''), (''voiceId'', JStr ''v1'')] ''modelId'' = None"
    by simp
  have i: "map_of [(''prompt'', JStr ''a cat'')] ''prompt'' = Some (JStr ''a cat'')
           \<and> 1 \<le> length ''a cat'' \<and> length ''a cat'' \<le> 800
           \<and> map_of [(''prompt'', JStr ''a cat'')] ''steps'' = None"
    by simp
  have b1: \<open>JSON_stringify (number_to_string example_platform)
              (JObj [(''text'', JStr ''hello''), (''voiceId'', JStr ''v1''),
                     (''modelId'', JStr ''eleven_turbo_v2'')])
            = Some ''{"text":"hello","voiceId":"v1","modelId":"eleven_turbo_v2"}''\<close>
    by (simp add: quote_def quote_unit_def)
  have b2: \<open>JSON_stringify (number_to_string example_platform)
              (JObj [(''prompt'', JStr ''a cat''), (''steps'', JNum 30)])
            = Some ''{"prompt":"a cat","steps":30}''\<close>
    by (simp add: quote_def quote_unit_def example_platform_def decimal_30)
  show ?thesis
    using a i
      declared_defaults_reach_downstream
        [where ps = "[(''text'', JStr ''hello''), (''voiceId'', JStr ''v1'')]"
           and t = "''hello''" and v = "''v1''" and qs = "[(''prompt'', JStr ''a cat'')]"
           and p = "''a cat''" and e = example_env and pf = example_platform]
    unfolding b1 b2 by simp
qed

section \<open>The tool handlers\<close>

lemma registered_handlers:
  assumes "t \<in> set (tools (buildServer e))"
  shows "tool_handler t = generate_audio e \<or> tool_handler t = generate_image e
         \<or> tool_handler t = translate_text e"
  using assms by (auto simp: buildServer_def)

lemma registered_tools_nth:
  "tool_handler (tools (buildServer e) ! 0) = generate_audio e"
  "tool_handler (tools (buildServer e) ! Suc 0) = generate_image e"
  "tool_handler (tools (buildServer e) ! 2) = translate_text e"
  "length (tools (buildServer e)) = 3"
  by (simp_all add: buildServer_def numeral_2_eq_2)

subsection \<open>Downstream failures\<close>

text \<open>
  Claim C3. The registry holds the handlers of the three tools, and for each of them: a
  call on arguments that can be destructured (the validated arguments always can) makes
  its one downstream call, and when the response to that call has a status outside 200
  to 299, the tool call fails. Its outcome is no result but the thrown error, whose
  message is the text of the downstream body.
\<close>

theorem downstream_failure_carries_body:
  "map tool_handler (tools (buildServer e))
     = [generate_audio e, generate_image e, translate_text e]
   \<and> (destructurable args
        \<and> net_fetch pf (generate_audio_request e pf args) = Inr res \<and> \<not> ok res
      \<longrightarrow> generate_audio e pf args
          = (Inl (Thrown (res_text res)), [generate_audio_request e pf args]))
   \<and> (destructurable args
        \<and> net_fetch pf (generate_image_request e pf args) = Inr res \<and> \<not> ok res
      \<longrightarrow> generate_image e pf args
          = (Inl (Thrown (res_text res)), [generate_image_request e pf args]))
   \<and> (destructurable args
        \<and> net_fetch pf (translate_text_request e pf args) = Inr res \<and> \<not> ok res
      \<longrightarrow> translate_text e pf args
          = (Inl (Thrown (res_text res)), [translate_text_request e pf args]))"
  by (simp add: buildServer_def generate_audio_def generate_image_def translate_text_def
        Let_def)

text \<open>Claim C3 at the specification's test, for each of the three tools: the downstream
  answers 500 with the body \<open>boom\<close>, and the call fails with the message \<open>boom\<close>.\<close>

theorem downstream_failure_carries_body_witness:
  "destructurable valid_audio_args
   \<and> destructurable valid_image_args
   \<and> destructurable valid_translate_args
   \<and> net_fetch boom_platform (generate_audio_request example_env boom_platform valid_audio_args)
       = Inr \<lparr>res_status = 500, res_text = ''boom''\<rparr>
   \<and> net_fetch boom_platform (generate_image_request example_env boom_platform valid_image_args)
       = Inr \<lparr>res_status = 500, res_text = ''boom''\<rparr>
   \<and> net_fetch boom_platform
         (translate_text_request example_env boom_platform valid_translate_args)
       = Inr \<lparr>res_status = 500, res_text = ''boom''\<rparr>
   \<and> \<not> ok \<lparr>res_status = 500, res_text = ''boom''\<rparr>
   \<and> generate_audio example_env boom_platform valid_audio_args
       = (Inl (Thrown ''boom''),
          [generate_audio_request example_env boom_platform valid_audio_args])
   \<and> generate_image example_env boom_platform valid_image_args
       = (Inl (Thrown ''boom''),
          [generate_image_request example_env boom_platform valid_image_args])
   \<and> translate_text example_env boom_platform valid_translate_args
       = (Inl (Thrown ''boom''),
          [translate_text_request example_env boom_platform valid_translate_args])"
proof -
  let ?r = "\<lparr>res_status = 500, res_text = ''boom''\<rparr>"
  have d: "destructurable valid_audio_args" "destructurable valid_image_args"
    "destructurable valid_translate_args"
    by (simp_all add: destructurable_def valid_audio_args_def valid_image_args_def
          valid_translate_args_def)
  have n: "net_fetch boom_platform q = Inr ?r" for q
    by (simp add: boom_platform_def)
  have k: "\<not> ok ?r"
    by (simp add: ok_def)
  show ?thesis
    using d k
      n [of "generate_audio_request example_env boom_platform valid_audio_args"]
      n [of "generate_image_request example_env boom_platform valid_image_args"]
      n [of "translate_text_request example_env boom_platform valid_translate_args"]
      downstream_failure_carries_body
        [where e = example_env and pf = boom_platform and args = valid_audio_args
           and res = ?r]
      downstream_failure_carries_body
        [where e = example_env and pf = boom_platform and args = valid_image_args
           and res = ?r]
      downstream_failure_carries_body
        [where e = example_env and pf = boom_platform and args = valid_translate_args
           and res = ?r]
    by simp
qed

subsection \<open>The result of a successful audio call\<close>

text \<open>
  Claim C4. A \<open>generate_audio\<close> call on arguments that can be destructured (the validated
  arguments always can) makes its one downstream call, and when the response to that
  call has status 200 and a JSON body with an \<open>audioUrl\<close> field, the result is the
  sequence of exactly two content blocks: the text block with the confirmation
  \<open>Audio created successfully.\<close>, then the audio block with that \<open>audioUrl\<close> as its URL and
  the MIME type \<open>audio/mpeg\<close>.
\<close>

theorem audio_success_two_blocks:
  assumes "destructurable args"
    and "net_fetch pf (generate_audio_request e pf args) = Inr res"
    and "res_status res = 200"
    and "JSON_parse pf (res_text res) = Some (JObj ps)"
    and "map_of ps ''audioUrl'' = Some u"
  shows "generate_audio e pf args =
     (Inr (JObj [(''content'', JArr
        [JObj [(''type'', JStr ''text''), (''text'', JStr ''Audio created successfully.'')],
         JObj [(''type'', JStr ''audio''), (''url'', u),
               (''mime_type'', JStr ''audio/mpeg'')]])]),
      [generate_audio_request e pf args])"
proof -
  have "ok res" using assms(3) by (simp add: ok_def)
  then show ?thesis using assms
    by (simp add: generate_audio_def Let_def destructurable_def)
qed

lemma example_audio_call:
  "generate_audio example_env example_platform valid_audio_args =
     (Inr (JObj [(''content'', JArr
        [JObj [(''type'', JStr ''text''), (''text'', JStr ''Audio created successfully.'')],
         JObj [(''type'', JStr ''audio''), (''url'', JStr ''https://x/a.mp3''),
               (''mime_type'', JStr ''audio/mpeg'')]])]),
      [generate_audio_request example_env example_platform valid_audio_args])"
  by (simp add: generate_audio_def Let_def destructurable_def generate_audio_request_def
        example_platform_def example_net_def example_JSON_parse_def example_env_def ok_def
        valid_audio_args_def)

lemma example_audio_response:
  \<open>net_fetch example_platform
     (generate_audio_request example_env example_platform valid_audio_args)
   = Inr \<lparr>res_status = 200, res_text = ''{"audioUrl":"https://x/a.mp3"}''\<rparr>\<close>
  by (simp add: example_platform_def example_net_def generate_audio_request_def example_env_def)

text \<open>Claim C4 at the specification's test: the downstream answers 200 with the JSON
  \<open>{"audioUrl":"https://x/a.mp3"}\<close>.\<close>

theorem audio_success_two_blocks_witness:
  \<open>destructurable valid_audio_args
   \<and> out_url (generate_audio_request example_env example_platform valid_audio_args)
       = ''https://tts.example/?token=tts-secret''
   \<and> net_fetch example_platform
       (generate_audio_request example_env example_platform valid_audio_args)
       = Inr \<lparr>res_status = 200, res_text = ''{"audioUrl":"https://x/a.mp3"}''\<rparr>
   \<and> JSON_parse example_platform ''{"audioUrl":"https://x/a.mp3"}''
       = Some (JObj [(''audioUrl'', JStr ''https://x/a.mp3'')])
   \<and> generate_audio example_env example_platform valid_audio_args
       = (Inr (JObj [(''content'', JArr
           [JObj [(''type'', JStr ''text''), (''text'', JStr ''Audio created successfully.'')],
            JObj [(''type'', JStr ''audio''), (''url'', JStr ''https://x/a.mp3''),
                  (''mime_type'', JStr ''audio/mpeg'')]])]),
          [generate_audio_request example_env example_platform valid_audio_args])\<close>
proof -
  let ?q = "generate_audio_request example_env example_platform valid_audio_args"
  let ?r = \<open>\<lparr>res_status = 200, res_text = ''{"audioUrl":"https://x/a.mp3"}''\<rparr>\<close>
  have d: "destructurable valid_audio_args"
    by (simp add: destructurable_def valid_audio_args_def)
  have w: "out_url ?q = ''https://tts.example/?token=tts-secret''"
    by (simp add: generate_audio_request_def example_env_def)
  have n: "net_fetch example_platform ?q = Inr ?r" by (rule example_audio_response)
  have s: "res_status ?r = 200" by simp
  have j: "JSON_parse example_platform (res_text ?r)
             = Some (JObj [(''audioUrl'', JStr ''https://x/a.mp3'')])"
    by (simp add: example_platform_def example_JSON_parse_def)
  have u: "map_of [(''audioUrl'', JStr ''https://x/a.mp3'')] ''audioUrl''
             = Some (JStr ''https://x/a.mp3'')"
    by simp
  from audio_success_two_blocks [OF d n s j u] d w n j show ?thesis by simp
qed

subsection \<open>The shape of the content blocks\<close>

lemma generate_audio_blocks:
  assumes "generate_audio e pf args = (Inr result, calls)"
  shows "\<exists>q res j. calls = [q] \<and> net_fetch pf q = Inr res
           \<and> JSON_parse pf (res_text res) = Some j
           \<and> result = JObj [(''content'', JArr
                [JObj [(''type'', JStr ''text''), (''text'', JStr ''Audio created successfully.'')],
                 JObj [(''type'', JStr ''audio''), (''url'', get_prop j ''audioUrl''),
                       (''mime_type'', JStr ''audio/mpeg'')]])]"
  using assms
  by (auto simp: generate_audio_def Let_def split: if_splits sum.splits option.splits)

lemma generate_image_blocks:
  assumes "generate_image e pf args = (Inr result, calls)"
  shows "\<exists>q res j. calls = [q] \<and> net_fetch pf q = Inr res
           \<and> JSON_parse pf (res_text res) = Some j
           \<and> result = JObj [(''content'', JArr
                [JObj [(''type'', JStr ''image''), (''url'', get_prop j ''url'')]])]"
  using assms
  by (auto simp: generate_image_def Let_def split: if_splits sum.splits option.splits)

lemma translate_text_blocks:
  assumes "translate_text e pf args = (Inr result, calls)"
  shows "\<exists>q res. calls = [q] \<and> net_fetch pf q = Inr res
           \<and> result = JObj [(''content'', JArr
                [JObj [(''type'', JStr ''text''), (''text'', JStr (res_text res))]])]"
  using assms
  by (auto simp: translate_text_def Let_def split: if_splits sum.splits option.splits)

lemma example_image_call:
  "generate_image example_env example_platform valid_image_args =
     (Inr (JObj [(''content'', JArr
        [JObj [(''type'', JStr ''image''), (''url'', JStr ''https://x/i.png'')]])]),
      [generate_image_request example_env example_platform valid_image_args])"
  by (simp add: generate_image_def Let_def destructurable_def generate_image_request_def
        example_platform_def example_net_def example_JSON_parse_def example_env_def ok_def
        valid_image_args_def)

text \<open>
  Claim C7, as the specification states it, at a \<open>generate_image\<close> call whose downstream
  answers 200 with the JSON \<open>{"url":"https://x/i.png"}\<close>: the image block of the result
  would carry a URL and a MIME type. It has the two properties \<open>type\<close> and \<open>url\<close> and no
  MIME type.
\<close>

theorem image_block_without_mime_counterexample:
  "fst (generate_image example_env example_platform valid_image_args)
     = Inr (JObj [(''content'', JArr
              [JObj [(''type'', JStr ''image''), (''url'', JStr ''https://x/i.png'')]])])
   \<and> \<not> list_all spec_block_ok (content_blocks (JObj [(''content'', JArr
              [JObj [(''type'', JStr ''image''), (''url'', JStr ''https://x/i.png'')]])]))"
  by (simp add: example_image_call content_blocks_def spec_block_ok_def is_string_def)

text \<open>
  Claim C7, amended. Every result that a handler of one of the three registered tools
  returns is an object whose \<open>content\<close> is a sequence of blocks, and every block is one of
  three variants: a text block, which carries literal text; an audio block, which
  carries as its \<open>url\<close> the \<open>audioUrl\<close> of the downstream JSON and the MIME type
  \<open>audio/mpeg\<close>; or an image block, which carries as its \<open>url\<close> the \<open>url\<close> of the
  downstream JSON and no MIME type.
\<close>

theorem tool_result_block_variants:
  assumes "t \<in> set (tools (buildServer e))"
    and "tool_handler t pf args = (Inr result, calls)"
  shows "result = JObj [(''content'', JArr (content_blocks result))]
         \<and> list_all (code_block_ok (downstream_json pf calls)) (content_blocks result)"
proof -
  consider (a) "tool_handler t = generate_audio e" | (i) "tool_handler t = generate_image e"
    | (l) "tool_handler t = translate_text e"
    using registered_handlers [OF assms(1)] by blast
  then show ?thesis
  proof cases
    case a
    with assms(2) have "generate_audio e pf args = (Inr result, calls)" by simp
    from generate_audio_blocks [OF this] show ?thesis
      by (auto simp: content_blocks_def code_block_ok_def downstream_json_def is_string_def)
  next
    case i
    with assms(2) have "generate_image e pf args = (Inr result, calls)" by simp
    from generate_image_blocks [OF this] show ?thesis
      by (auto simp: content_blocks_def code_block_ok_def downstream_json_def is_string_def)
  next
    case l
    with assms(2) have "translate_text e pf args = (Inr result, calls)" by simp
    from translate_text_blocks [OF this] show ?thesis
      by (auto simp: content_blocks_def code_block_ok_def downstream_json_def is_string_def)
  qed
qed

text \<open>Claim C7, amended, at the image call of the counterexample.\<close>

theorem tool_result_block_variants_witness:
  "tools (buildServer example_env) ! Suc 0 \<in> set (tools (buildServer example_env))
   \<and> tool_name (tools (buildServer example_env) ! Suc 0) = ''generate_image''
   \<and> tool_handler (tools (buildServer example_env) ! Suc 0) example_platform valid_image_args =
     (Inr (JObj [(''content'', JArr
        [JObj [(''type'', JStr ''image''), (''url'', JStr ''https://x/i.png'')]])]),
      [generate_image_request example_env example_platform valid_image_args])
   \<and> list_all
        (code_block_ok (downstream_json example_platform
           [generate_image_request example_env example_platform valid_image_args]))
        [JObj [(''type'', JStr ''image''), (''url'', JStr ''https://x/i.png'')]]"
proof -
  let ?t = "tools (buildServer example_env) ! Suc 0"
  have t: "?t \<in> set (tools (buildServer example_env))"
    by (simp add: buildServer_def)
  have n: "tool_name ?t = ''generate_image''"
    by (simp add: buildServer_def)
  have c: "tool_handler ?t example_platform valid_image_args =
     (Inr (JObj [(''content'', JArr
        [JObj [(''type'', JStr ''image''), (''url'', JStr ''https://x/i.png'')]])]),
      [generate_image_request example_env example_platform valid_image_args])"
    by (simp add: registered_tools_nth example_image_call)
  from tool_result_block_variants [OF t c] t n c show ?thesis
    by (simp add: content_blocks_def)
qed

subsection \<open>Credentials and results\<close>

lemma generate_audio_same_result:
  assumes "number_to_string pf1 = number_to_string pf2" "JSON_parse pf1 = JSON_parse pf2"
    and "map (net_fetch pf1) (snd (generate_audio e1 pf1 args))
         = map (net_fetch pf2) (snd (generate_audio e2 pf2 args))"
  shows "fst (generate_audio e1 pf1 args) = fst (generate_audio e2 pf2 args)"
  using assms
  by (auto simp: generate_audio_def Let_def split: if_splits sum.splits option.splits)

lemma generate_image_same_result:
  assumes "number_to_string pf1 = number_to_string pf2" "JSON_parse pf1 = JSON_parse pf2"
    and "map (net_fetch pf1) (snd (generate_image e1 pf1 args))
         = map (net_fetch pf2) (snd (generate_image e2 pf2 args))"
  shows "fst (generate_image e1 pf1 args) = fst (generate_image e2 pf2 args)"
  using assms
  by (auto simp: generate_image_def Let_def split: if_splits sum.splits option.splits)

lemma translate_text_same_result:
  assumes "map (net_fetch pf1) (snd (translate_text e1 pf1 args))
         = map (net_fetch pf2) (snd (translate_text e2 pf2 args))"
  shows "fst (translate_text e1 pf1 args) = fst (translate_text e2 pf2 args)"
  using assms
  by (auto simp: translate_text_def Let_def split: if_splits sum.splits option.splits)

text \<open>
  Claim C9. Take two runs of the handler of the same registered tool on the same
  arguments, in two environments that may differ in every credential (the TTS token, the
  image key, the hub secret), on platforms with the same \<open>Number::toString\<close> and
  \<open>JSON.parse\<close>. If the downstream responses to the calls of the two runs are the same,
  the two outcomes are the same: the result is built from fixed literals and from the
  downstream response, and from no credential.
\<close>

theorem result_independent_of_credentials:
  assumes "i < length (tools (buildServer e1))"
    and "number_to_string pf1 = number_to_string pf2"
    and "JSON_parse pf1 = JSON_parse pf2"
    and "map (net_fetch pf1) (snd (tool_handler (tools (buildServer e1) ! i) pf1 args))
         = map (net_fetch pf2) (snd (tool_handler (tools (buildServer e2) ! i) pf2 args))"
  shows "fst (tool_handler (tools (buildServer e1) ! i) pf1 args)
         = fst (tool_handler (tools (buildServer e2) ! i) pf2 args)"
proof -
  have "i < 3" using assms(1) by (simp add: registered_tools_nth)
  then consider (a) "i = 0" | (b) "i = Suc 0" | (c) "i = 2" by linarith
  then show ?thesis
  proof cases
    case a
    have "fst (generate_audio e1 pf1 args) = fst (generate_audio e2 pf2 args)"
      using assms(2) assms(3) assms(4) [unfolded a registered_tools_nth]
      by (rule generate_audio_same_result)
    then show ?thesis by (simp only: a registered_tools_nth)
  next
    case b
    have "fst (generate_image e1 pf1 args) = fst (generate_image e2 pf2 args)"
      using assms(2) assms(3) assms(4) [unfolded b registered_tools_nth]
      by (rule generate_image_same_result)
    then show ?thesis by (simp only: b registered_tools_nth)
  next
    case c
    have "fst (translate_text e1 pf1 args) = fst (translate_text e2 pf2 args)"
      using assms(4) [unfolded c registered_tools_nth]
      by (rule translate_text_same_result)
    then show ?thesis by (simp only: c registered_tools_nth)
  qed
qed

lemma other_audio_call:
  "generate_audio other_env example_platform valid_audio_args =
     (Inr (JObj [(''content'', JArr
        [JObj [(''type'', JStr ''text''), (''text'', JStr ''Audio created successfully.'')],
         JObj [(''type'', JStr ''audio''), (''url'', JStr ''https://x/a.mp3''),
               (''mime_type'', JStr ''audio/mpeg'')]])]),
      [generate_audio_request other_env example_platform valid_audio_args])"
  by (simp add: generate_audio_def Let_def destructurable_def generate_audio_request_def
        example_platform_def example_net_def example_JSON_parse_def other_env_def ok_def
        valid_audio_args_def)

lemma other_audio_response:
  \<open>net_fetch example_platform
     (generate_audio_request other_env example_platform valid_audio_args)
   = Inr \<lparr>res_status = 200, res_text = ''{"audioUrl":"https://x/a.mp3"}''\<rparr>\<close>
  by (simp add: example_platform_def example_net_def generate_audio_request_def other_env_def)

text \<open>Claim C9 at two runs of \<open>generate_audio\<close> whose outbound calls carry different
  tokens and get the same response.\<close>

theorem result_independent_of_credentials_witness:
  "0 < length (tools (buildServer example_env))
   \<and> map out_url (snd (tool_handler (tools (buildServer example_env) ! 0) example_platform
         valid_audio_args))
     = [''https://tts.example/?token=tts-secret'']
   \<and> map out_url (snd (tool_handler (tools (buildServer other_env) ! 0) example_platform
         valid_audio_args))
     = [''https://tts.example/?token=another-tts-secret'']
   \<and> map (net_fetch example_platform)
         (snd (tool_handler (tools (buildServer example_env) ! 0) example_platform
            valid_audio_args))
     = map (net_fetch example_platform)
         (snd (tool_handler (tools (buildServer other_env) ! 0) example_platform
            valid_audio_args))
   \<and> fst (tool_handler (tools (buildServer example_env) ! 0) example_platform valid_audio_args)
     = fst (tool_handler (tools (buildServer other_env) ! 0) example_platform valid_audio_args)"
proof -
  have l: "0 < length (tools (buildServer example_env))"
    by (simp add: registered_tools_nth)
  have u1: "map out_url (snd (tool_handler (tools (buildServer example_env) ! 0)
              example_platform valid_audio_args))
            = [''https://tts.example/?token=tts-secret'']"
    unfolding registered_tools_nth example_audio_call
    by (simp add: generate_audio_request_def example_env_def)
  have u2: "map out_url (snd (tool_handler (tools (buildServer other_env) ! 0)
              example_platform valid_audio_args))
            = [''https://tts.example/?token=another-tts-secret'']"
    unfolding registered_tools_nth other_audio_call
    by (simp add: generate_audio_request_def other_env_def)
  have n: "map (net_fetch example_platform)
         (snd (tool_handler (tools (buildServer example_env) ! 0) example_platform
            valid_audio_args))
     = map (net_fetch example_platform)
         (snd (tool_handler (tools (buildServer other_env) ! 0) example_platform
            valid_audio_args))"
    unfolding registered_tools_nth example_audio_call other_audio_call
    by (simp add: example_audio_response other_audio_response)
  from result_independent_of_credentials [OF l refl refl n] l u1 u2 n show ?thesis
    by simp
qed

section \<open>The lifecycle of the registry\<close>

lemma passes_gate_iff:
  "passes_gate r e \<longleftrightarrow>
     req_method r \<noteq> ''OPTIONS''
     \<and> \<not> (falsy (request_token r) \<or> request_token r \<noteq> Some (HUB_TOKEN e))"
  by (auto simp: passes_gate_def falsy_def)

lemma fetch_not_passing:
  assumes "\<not> passes_gate r e"
  shows "fst (snd (fetch pf handle r e)) = e \<and> snd (snd (fetch pf handle r e)) = []"
proof (cases "req_method r = ''OPTIONS''")
  case True
  then show ?thesis by (simp add: fetch_def)
next
  case False
  with assms have "falsy (request_token r) \<or> request_token r \<noteq> Some (HUB_TOKEN e)"
    by (simp add: passes_gate_iff)
  with False show ?thesis by (simp add: fetch_rejects)
qed

lemma fetch_passing:
  assumes "passes_gate r e"
  shows "fetch pf handle r e =
     (let srv = (case SERVER e of None \<Rightarrow> buildServer e | Some s \<Rightarrow> s);
          e' = e\<lparr>SERVER := Some srv\<rparr>
      in (fst (handle srv r e'), e',
          (case SERVER e of None \<Rightarrow> [Constructed] | Some s \<Rightarrow> [])
            @ [Handled] @ map Called (snd (handle srv r e'))))"
proof -
  have m: "req_method r \<noteq> ''OPTIONS''"
    and t: "request_token r = Some (HUB_TOKEN e)"
    and f: "\<not> falsy (Some (HUB_TOKEN e))"
    using assms by (simp_all add: passes_gate_def falsy_def)
  show ?thesis
    unfolding fetch_def Let_def t using m f
    by (cases "SERVER e") (simp_all add: case_prod_beta)
qed

lemma fetch_first_authenticated:
  assumes "SERVER e = None" "passes_gate r e"
  shows "fetch pf handle r e =
     (fst (handle (buildServer e) r (e\<lparr>SERVER := Some (buildServer e)\<rparr>)),
      e\<lparr>SERVER := Some (buildServer e)\<rparr>,
      Constructed # Handled
        # map Called (snd (handle (buildServer e) r (e\<lparr>SERVER := Some (buildServer e)\<rparr>))))"
  using assms by (simp add: fetch_passing Let_def)

lemma update_same_SERVER: "SERVER e = Some s \<Longrightarrow> e\<lparr>SERVER := Some s\<rparr> = e"
  by (cases e) simp

lemma fetch_reuses:
  assumes "SERVER e = Some s" "passes_gate r e"
  shows "fetch pf handle r e = (fst (handle s r e), e, Handled # map Called (snd (handle s r e)))"
  using assms by (simp add: fetch_passing Let_def update_same_SERVER)

lemma constructions_simps:
  "constructions [] = 0"
  "constructions (Constructed # evs) = Suc (constructions evs)"
  "constructions (Handled # evs) = constructions evs"
  "constructions (Called q # evs) = constructions evs"
  "constructions (evs @ evs') = constructions evs + constructions evs'"
  by (simp_all add: constructions_def)

lemma constructions_Called: "constructions (map Called qs) = 0"
  by (induction qs) (simp_all add: constructions_simps)

lemma fetch_step:
  "(SERVER e = None \<longrightarrow>
      (fst (snd (fetch pf handle r e)) = e \<and> constructions (snd (snd (fetch pf handle r e))) = 0)
      \<or> (SERVER (fst (snd (fetch pf handle r e))) = Some (buildServer e)
          \<and> constructions (snd (snd (fetch pf handle r e))) = 1))
   \<and> (\<forall>s. SERVER e = Some s \<longrightarrow>
        fst (snd (fetch pf handle r e)) = e \<and> constructions (snd (snd (fetch pf handle r e))) = 0)"
proof (cases "passes_gate r e")
  case False
  then show ?thesis by (simp add: fetch_not_passing constructions_simps)
next
  case True
  show ?thesis
  proof (cases "SERVER e")
    case None
    then show ?thesis
      by (simp add: fetch_first_authenticated [OF None True] constructions_simps constructions_Called)
  next
    case (Some s)
    then show ?thesis
      by (simp add: fetch_reuses [OF Some True] constructions_simps constructions_Called)
  qed
qed

lemma serve_Cons:
  "serve pf handle (r # rs) e =
     (fst (fetch pf handle r e) # fst (serve pf handle rs (fst (snd (fetch pf handle r e)))),
      fst (snd (serve pf handle rs (fst (snd (fetch pf handle r e))))),
      snd (snd (fetch pf handle r e))
        @ snd (snd (serve pf handle rs (fst (snd (fetch pf handle r e))))))"
  by (simp add: case_prod_beta Let_def)

lemma serve_built:
  assumes "SERVER e = Some s"
  shows "fst (snd (serve pf handle rs e)) = e \<and> constructions (snd (snd (serve pf handle rs e))) = 0"
  using assms
proof (induction rs)
  case Nil
  then show ?case by (simp add: constructions_simps)
next
  case (Cons r rs)
  from fetch_step [of e pf handle r] Cons.prems
  have "fst (snd (fetch pf handle r e)) = e"
    and "constructions (snd (snd (fetch pf handle r e))) = 0"
    by simp_all
  with Cons show ?case
    by (simp only: serve_Cons) (simp add: constructions_simps)
qed

lemma serve_constructs_at_most_once:
  "constructions (snd (snd (serve pf handle rs e))) \<le> 1"
proof (induction rs arbitrary: e)
  case Nil
  show ?case by (simp add: constructions_simps)
next
  case (Cons r rs)
  let ?e1 = "fst (snd (fetch pf handle r e))"
  let ?c1 = "constructions (snd (snd (fetch pf handle r e)))"
  consider (zero) "?c1 = 0"
    | (one) "?c1 = 1" "SERVER ?e1 = Some (buildServer e)"
    using fetch_step [of e pf handle r] by (cases "SERVER e") auto
  then show ?case
  proof cases
    case zero
    with Cons.IH [of ?e1] show ?thesis
      by (simp only: serve_Cons) (simp add: constructions_simps)
  next
    case one
    from serve_built [OF one(2), of pf handle rs] one(1) show ?thesis
      by (simp only: serve_Cons) (simp add: constructions_simps)
  qed
qed

lemma buildServer_catalog:
  "map (\<lambda>t. (tool_name t, tool_schema t)) (tools (buildServer e)) =
     [(''generate_audio'', generate_audio_schema),
      (''generate_image'', generate_image_schema),
      (''translate_text'', translate_text_schema)]"
  by (simp add: buildServer_def)

lemma passes_gate_SERVER_update [simp]:
  "passes_gate r (e\<lparr>SERVER := x\<rparr>) = passes_gate r e"
  by (simp add: passes_gate_def)

lemma serve_never_authenticated:
  assumes "\<not> list_ex (\<lambda>r. passes_gate r e) rs"
  shows "fst (snd (serve pf handle rs e)) = e \<and> snd (snd (serve pf handle rs e)) = []"
  using assms
proof (induction rs)
  case Nil
  show ?case by simp
next
  case (Cons r rs)
  then have "\<not> passes_gate r e" by simp
  from fetch_not_passing [OF this, of pf handle] Cons show ?case
    by (simp only: serve_Cons) simp
qed

lemma serve_first_authenticated:
  assumes "SERVER e = None" "list_ex (\<lambda>r. passes_gate r e) rs"
  shows "fst (snd (serve pf handle rs e)) = e\<lparr>SERVER := Some (buildServer e)\<rparr>
         \<and> constructions (snd (snd (serve pf handle rs e))) = 1"
  using assms
proof (induction rs)
  case Nil
  then show ?case by simp
next
  case (Cons r rs)
  let ?b = "e\<lparr>SERVER := Some (buildServer e)\<rparr>"
  show ?case
  proof (cases "passes_gate r e")
    case True
    have f: "fst (snd (fetch pf handle r e)) = ?b"
      and c: "constructions (snd (snd (fetch pf handle r e))) = 1"
      by (simp_all add: fetch_first_authenticated [OF Cons.prems(1) True]
            constructions_simps constructions_Called)
    have "SERVER ?b = Some (buildServer e)" by simp
    from serve_built [OF this, of pf handle rs] f c show ?thesis
      by (simp only: serve_Cons) (simp add: constructions_simps)
  next
    case False
    then have "list_ex (\<lambda>r. passes_gate r e) rs" using Cons.prems(2) by simp
    with Cons.IH Cons.prems(1) fetch_not_passing [OF False, of pf handle] show ?thesis
      by (simp only: serve_Cons) (simp add: constructions_simps)
  qed
qed

text \<open>
  Claim C8. In a process, which serves its requests one invocation after the other on
  one environment, the registry is constructed at most once. While the cache handle is
  empty, a request that does not pass the gate leaves it empty and constructs nothing,
  and a run without any request that passes the gate ends as it began. The first request
  that passes the gate constructs the registry, stores it in the cache handle and hands
  the request to it, so a run with such a request constructs exactly once. Once the
  handle is filled, a request that passes the gate is handed to the cached registry as
  it is, nothing is constructed again and the environment stays the same for the rest
  of the run. Whenever \<open>buildServer\<close> runs, whatever the environment, it registers the
  same three tools with the same schemas.
\<close>

theorem registry_constructed_at_most_once:
  "constructions (snd (snd (serve pf handle rs e))) \<le> 1
   \<and> (SERVER e = None \<and> \<not> passes_gate r e \<longrightarrow>
        fst (snd (fetch pf handle r e)) = e \<and> snd (snd (fetch pf handle r e)) = [])
   \<and> (SERVER e = None \<and> \<not> list_ex (\<lambda>r. passes_gate r e) rs \<longrightarrow>
        fst (snd (serve pf handle rs e)) = e \<and> snd (snd (serve pf handle rs e)) = [])
   \<and> (SERVER e = None \<and> passes_gate r e \<longrightarrow>
        fetch pf handle r e =
          (fst (handle (buildServer e) r (e\<lparr>SERVER := Some (buildServer e)\<rparr>)),
           e\<lparr>SERVER := Some (buildServer e)\<rparr>,
           Constructed # Handled
             # map Called (snd (handle (buildServer e) r (e\<lparr>SERVER := Some (buildServer e)\<rparr>)))))
   \<and> (SERVER e = None \<and> list_ex (\<lambda>r. passes_gate r e) rs \<longrightarrow>
        fst (snd (serve pf handle rs e)) = e\<lparr>SERVER := Some (buildServer e)\<rparr>
        \<and> constructions (snd (snd (serve pf handle rs e))) = 1)
   \<and> (SERVER e = Some s \<and> passes_gate r e \<longrightarrow>
        fetch pf handle r e = (fst (handle s r e), e, Handled # map Called (snd (handle s r e))))
   \<and> (SERVER e = Some s \<longrightarrow>
        fst (snd (serve pf handle rs e)) = e
        \<and> constructions (snd (snd (serve pf handle rs e))) = 0)
   \<and> map (\<lambda>t. (tool_name t, tool_schema t)) (tools (buildServer e)) =
       [(''generate_audio'', generate_audio_schema),
        (''generate_image'', generate_image_schema),
        (''translate_text'', translate_text_schema)]"
  using serve_constructs_at_most_once [of pf handle rs e]
    fetch_not_passing [of r e pf handle]
    serve_never_authenticated [of e rs pf handle]
    fetch_first_authenticated [of e r pf handle]
    serve_first_authenticated [of e rs pf handle]
    fetch_reuses [of e s r pf handle]
    serve_built [of e s pf handle rs]
    buildServer_catalog [of e]
  by blast

text \<open>Claim C8 at three runs: one without an authenticated request, one on a fresh
  environment with two authenticated requests, and one on the environment that the
  second run leaves behind.\<close>

theorem registry_constructed_at_most_once_witness:
  "SERVER example_env = None
   \<and> SERVER built_env = Some (buildServer example_env)
   \<and> \<not> passes_gate anonymous_request example_env
   \<and> passes_gate header_token_request example_env
   \<and> passes_gate query_token_request built_env
   \<and> serve example_platform example_transport
        [anonymous_request, wrong_token_request, preflight_request] example_env
       = (fst (serve example_platform example_transport
                 [anonymous_request, wrong_token_request, preflight_request] example_env),
          example_env, [])
   \<and> constructions (snd (snd (serve example_platform example_transport
        [anonymous_request, header_token_request, query_token_request] example_env))) = 1
   \<and> fst (snd (serve example_platform example_transport
        [anonymous_request, header_token_request, query_token_request] example_env)) = built_env
   \<and> fetch example_platform example_transport header_token_request example_env =
        (\<lparr>resp_status = 200, resp_headers = [], resp_body = Some ''ToolHub''\<rparr>, built_env,
         [Constructed, Handled])
   \<and> fetch example_platform example_transport query_token_request built_env =
        (\<lparr>resp_status = 200, resp_headers = [], resp_body = Some ''ToolHub''\<rparr>, built_env,
         [Handled])
   \<and> fst (snd (serve example_platform example_transport
        [query_token_request, anonymous_request, header_token_request] built_env)) = built_env
   \<and> constructions (snd (snd (serve example_platform example_transport
        [query_token_request, anonymous_request, header_token_request] built_env))) = 0"
proof -
  have u: "SERVER example_env = None"
    by (simp add: example_env_def)
  have b: "SERVER built_env = Some (buildServer example_env)"
    by (simp add: built_env_def)
  have g0: "\<not> passes_gate anonymous_request example_env"
    by (simp add: passes_gate_def anonymous_request_def request_token_def
          searchParams_get_def headers_get_def)
  have g0': "\<not> passes_gate wrong_token_request example_env"
    by (simp add: passes_gate_def wrong_token_request_def example_env_def request_token_def
          searchParams_get_def)
  have g0'': "\<not> passes_gate preflight_request example_env"
    by (simp add: passes_gate_def preflight_request_def)
  have g1: "passes_gate header_token_request example_env"
    by (simp add: passes_gate_def header_token_request_def example_env_def request_token_def
          searchParams_get_def headers_get_def lower_char_def)
  have g2: "passes_gate query_token_request built_env"
    by (simp add: passes_gate_def query_token_request_def built_env_def example_env_def
          request_token_def searchParams_get_def)
  have nex: "\<not> list_ex (\<lambda>r. passes_gate r example_env)
              [anonymous_request, wrong_token_request, preflight_request]"
    using g0 g0' g0'' by simp
  have ex: "list_ex (\<lambda>r. passes_gate r example_env)
              [anonymous_request, header_token_request, query_token_request]"
    using g1 by simp
  have name: "server_name (buildServer example_env) = ''ToolHub''"
    by (simp add: buildServer_def)
  have pair: "x = (fst x, fst (snd x), snd (snd x))" for x :: "response list \<times> env \<times> event list"
    by simp
  show ?thesis
    using u b g0 g1 g2 nex ex name
      pair [of "serve example_platform example_transport
                  [anonymous_request, wrong_token_request, preflight_request] example_env"]
      registry_constructed_at_most_once
        [where pf = example_platform and handle = example_transport
           and rs = "[anonymous_request, wrong_token_request, preflight_request]"
           and e = example_env and r = anonymous_request and s = "buildServer example_env"]
      registry_constructed_at_most_once
        [where pf = example_platform and handle = example_transport
           and rs = "[anonymous_request, header_token_request, query_token_request]"
           and e = example_env and r = header_token_request and s = "buildServer example_env"]
      registry_constructed_at_most_once
        [where pf = example_platform and handle = example_transport
           and rs = "[query_token_request, anonymous_request, header_token_request]"
           and e = built_env and r = query_token_request and s = "buildServer example_env"]
    by (simp add: example_transport_def built_env_def del: serve.simps)
qed

end
